theory Spec2Isabelle
  imports Complex_Main "HOL-Library.Product_Lexorder" "HOL-Library.Multiset"
begin

section \<open>Python values used by the downloader\<close>

text \<open>
  The service in \<^verbatim>\<open>app/core/downloader.py\<close> works on the dictionaries that the
  extraction library returns. A dictionary with a fixed set of keys is a record here, and
  a field is \<open>None\<close> when the key is missing, so that \<^verbatim>\<open>d.get(key)\<close> is \<^verbatim>\<open>None\<close> and
  \<^verbatim>\<open>d.get(key, default)\<close> is the default. A key that is there has a value of the type
  that the response schema in \<^verbatim>\<open>app/models/schemas.py\<close> gives it: strings are ASCII
  strings, and sizes, heights and durations are Python integers.
\<close>

subsection \<open>Strings\<close>

text \<open>\<^verbatim>\<open>str.lower()\<close> and \<^verbatim>\<open>str.upper()\<close> on one ASCII character.\<close>

definition lower_char :: "char \<Rightarrow> char" where
  "lower_char c =
     (case map_of (zip ''ABCDEFGHIJKLMNOPQRSTUVWXYZ'' ''abcdefghijklmnopqrstuvwxyz'') c of
        None \<Rightarrow> c
      | Some d \<Rightarrow> d)"

definition upper_char :: "char \<Rightarrow> char" where
  "upper_char c =
     (case map_of (zip ''abcdefghijklmnopqrstuvwxyz'' ''ABCDEFGHIJKLMNOPQRSTUVWXYZ'') c of
        None \<Rightarrow> c
      | Some d \<Rightarrow> d)"

definition lower :: "string \<Rightarrow> string" where
  "lower s = map lower_char s"

text \<open>\<^verbatim>\<open>str.capitalize()\<close>: first character upper-cased, the rest lower-cased.\<close>

fun capitalize :: "string \<Rightarrow> string" where
  "capitalize [] = []"
| "capitalize (c # cs) = upper_char c # lower cs"

text \<open>\<^verbatim>\<open>s.startswith(p)\<close>, and \<^verbatim>\<open>p in s\<close> as a scan over the start positions of \<open>s\<close>.\<close>

fun startswith :: "string \<Rightarrow> string \<Rightarrow> bool" where
  "startswith s [] = True"
| "startswith [] (p # ps) = False"
| "startswith (c # cs) (p # ps) = (c = p \<and> startswith cs ps)"

fun contains :: "string \<Rightarrow> string \<Rightarrow> bool" where
  "contains [] p = startswith [] p"
| "contains (c # cs) p = (startswith (c # cs) p \<or> contains cs p)"

text \<open>
  \<^verbatim>\<open>re.search(pattern, s)\<close> for the patterns of this program: each is an alternation
  \<^verbatim>\<open>a\.b|c\.d\<close> of literal strings (the dots are escaped), kept as the list of its
  alternatives. The search succeeds when one alternative occurs in \<open>s\<close>.
\<close>

fun re_search :: "string list \<Rightarrow> string \<Rightarrow> bool" where
  "re_search [] s = False"
| "re_search (alt # alts) s = (contains s alt \<or> re_search alts s)"

text \<open>Python's \<^verbatim>\<open>a or b\<close> on optional values: \<open>None\<close>, \<open>0\<close> and \<open>''\<close> are falsy.\<close>

definition truthy_int :: "int option \<Rightarrow> bool" where
  "truthy_int a = (case a of None \<Rightarrow> False | Some n \<Rightarrow> n \<noteq> 0)"

definition truthy_str :: "string option \<Rightarrow> bool" where
  "truthy_str a = (case a of None \<Rightarrow> False | Some s \<Rightarrow> s \<noteq> [])"

definition or_int :: "int option \<Rightarrow> int option \<Rightarrow> int option" where
  "or_int a b = (if truthy_int a then a else b)"

definition or_str :: "string option \<Rightarrow> string option \<Rightarrow> string option" where
  "or_str a b = (if truthy_str a then a else b)"

text \<open>\<^verbatim>\<open>x or 0\<close> for an optional integer \<open>x\<close>.\<close>

definition or_zero :: "int option \<Rightarrow> int" where
  "or_zero a = (case a of None \<Rightarrow> 0 | Some n \<Rightarrow> n)"

section \<open>Exceptions\<close>

text \<open>
  The exception classes of \<^verbatim>\<open>app/utils/exceptions.py\<close> with the arguments they are
  built from. The two messages that \<^verbatim>\<open>get_video_info\<close> formats for
  \<^verbatim>\<open>DownloadFailedException\<close> are kept structured: the text of the extractor's error, or
  the exception that the catch-all handler caught.
\<close>

datatype unavailable_message = DefaultMessage | PrivateOrRemoved | CopyrightBlocked

datatype error =
    InvalidURLException string
  | VideoUnavailableException unavailable_message
  | DownloadFailedException failure_message
  | FileTooLargeException int int
  | TimeoutException
and failure_message =
    DownloadErrorMessage string
  | UnexpectedError raised
and raised =
    App error
  | DownloadError string
  | AsyncTimeoutError
  | OtherException string

section \<open>Platform detection\<close>

definition PLATFORM_PATTERNS :: "(string \<times> string list) list" where
  "PLATFORM_PATTERNS =
     [(''instagram'', [''instagram.com'', ''instagr.am'']),
      (''tiktok'', [''tiktok.com'', ''vm.tiktok.com'']),
      (''youtube'', [''youtube.com'', ''youtu.be''])]"

text \<open>The loop of \<^verbatim>\<open>detect_platform\<close> over the items of the table, in insertion order.\<close>

fun first_platform :: "(string \<times> string list) list \<Rightarrow> string \<Rightarrow> string option" where
  "first_platform [] url_lower = None"
| "first_platform ((platform, pattern) # rest) url_lower =
     (if re_search pattern url_lower then Some platform else first_platform rest url_lower)"

definition detect_platform :: "string \<Rightarrow> error + string" where
  "detect_platform url =
     (let url_lower = lower url in
      case first_platform PLATFORM_PATTERNS url_lower of
        Some platform \<Rightarrow> Inr platform
      | None \<Rightarrow> Inl (InvalidURLException url))"

section \<open>Format descriptors and the selection of the best format\<close>

record raw_format =
  format_id :: "string option"
  format_note :: "string option"
  ext :: "string option"
  quality :: "int option"
  filesize :: "int option"
  height :: "int option"
  resolution :: "string option"
  fps :: "int option"
  vcodec :: "string option"
  acodec :: "string option"
  url :: "string option"

text \<open>The empty dictionary \<^verbatim>\<open>{}\<close>: every lookup gives \<open>None\<close>.\<close>

definition empty_format :: raw_format where
  "empty_format =
     \<lparr>format_id = None, format_note = None, ext = None, quality = None, filesize = None,
      height = None, resolution = None, fps = None, vcodec = None, acodec = None,
      url = None\<rparr>"

text \<open>\<^verbatim>\<open>fmt.get('vcodec') != 'none'\<close>: a missing codec tag counts as video.\<close>

definition has_video :: "raw_format \<Rightarrow> bool" where
  "has_video fmt = (vcodec fmt \<noteq> Some ''none'')"

text \<open>\<^verbatim>\<open>fmt.get('format_note', '').lower()\<close>.\<close>

definition note_lower :: "raw_format \<Rightarrow> string" where
  "note_lower fmt = lower (case format_note fmt of None \<Rightarrow> [] | Some n \<Rightarrow> n)"

text \<open>The TikTok loop: the first format that passes both tests, if there is one.\<close>

fun tiktok_scan :: "raw_format list \<Rightarrow> raw_format option" where
  "tiktok_scan [] = None"
| "tiktok_scan (fmt # rest) =
     (if contains (note_lower fmt) ''download'' \<or> \<not> contains (note_lower fmt) ''watermark''
      then (if has_video fmt then Some fmt else tiktok_scan rest)
      else tiktok_scan rest)"

text \<open>
  \<^verbatim>\<open>list.sort(key=k, reverse=True)\<close>: Python's sort is stable, also with
  \<^verbatim>\<open>reverse=True\<close>, so the result is in descending key order and elements with equal
  keys keep their order. An insertion sort with exactly this result: an element goes in
  front of the first element whose key is not greater than its own.
\<close>

fun insert_reverse :: "('a \<Rightarrow> 'k::linorder) \<Rightarrow> 'a \<Rightarrow> 'a list \<Rightarrow> 'a list" where
  "insert_reverse k x [] = [x]"
| "insert_reverse k x (y # ys) =
     (if k y \<le> k x then x # y # ys else y # insert_reverse k x ys)"

fun sort_reverse :: "('a \<Rightarrow> 'k::linorder) \<Rightarrow> 'a list \<Rightarrow> 'a list" where
  "sort_reverse k [] = []"
| "sort_reverse k (x # xs) = insert_reverse k x (sort_reverse k xs)"

text \<open>
  The sort key \<^verbatim>\<open>(x.get('height') or 0, x.get('filesize') or 0)\<close>; Python compares
  tuples lexicographically.
\<close>

definition sort_key :: "raw_format \<Rightarrow> int \<times> int" where
  "sort_key x = (or_zero (height x), or_zero (filesize x))"

text \<open>The local \<^verbatim>\<open>video_formats\<close> of the default rule, before and after the sort.\<close>

definition video_formats :: "raw_format list \<Rightarrow> raw_format list" where
  "video_formats formats = filter has_video formats"

definition sorted_video_formats :: "raw_format list \<Rightarrow> raw_format list" where
  "sorted_video_formats formats = sort_reverse sort_key (video_formats formats)"

text \<open>The default rule: the part of \<^verbatim>\<open>_select_best_format\<close> after the TikTok block.\<close>

definition default_format :: "raw_format list \<Rightarrow> raw_format" where
  "default_format formats =
     (if video_formats formats \<noteq> [] then hd (sorted_video_formats formats) else hd formats)"

definition select_best_format :: "raw_format list \<Rightarrow> string \<Rightarrow> raw_format" where
  "select_best_format formats platform =
     (if formats = [] then empty_format
      else case (if platform = ''tiktok'' then tiktok_scan formats else None) of
             Some fmt \<Rightarrow> fmt
           | None \<Rightarrow> default_format formats)"

section \<open>Rendering numbers\<close>

text \<open>\<^verbatim>\<open>str(n)\<close> for an integer: decimal digits, with a minus sign when negative.\<close>

definition digit_char :: "nat \<Rightarrow> char" where
  "digit_char k = ''0123456789'' ! k"

fun str_nat :: "nat \<Rightarrow> string" where
  "str_nat n =
     (if n < 10 then [digit_char n] else str_nat (n div 10) @ [digit_char (n mod 10)])"

declare str_nat.simps [simp del]

definition str_int :: "int \<Rightarrow> string" where
  "str_int i = (if i < 0 then CHR ''-'' # str_nat (nat (- i)) else str_nat (nat i))"

text \<open>The conversion \<^verbatim>\<open>%02d\<close> for a number that is not negative.\<close>

definition pad2 :: "int \<Rightarrow> string" where
  "pad2 i = (let s = str_int i in replicate (2 - length s) (CHR ''0'') @ s)"

text \<open>
  \<^verbatim>\<open>str(timedelta(seconds=d))\<close> of the standard library for a whole number of seconds:
  the constructor normalises to days and seconds of the day, and the string is
  \<^verbatim>\<open>"%d:%02d:%02d" % (hh, mm, ss)\<close> after two \<^verbatim>\<open>divmod\<close>s, with
  \<^verbatim>\<open>"%d day%s, "\<close> in front when the days are not zero. There are no microseconds,
  and the duration is within the range of \<^verbatim>\<open>timedelta\<close>, which ends at 999999999 days.
\<close>

definition timedelta_str :: "int \<Rightarrow> string" where
  "timedelta_str d =
     (let days = d div 86400;
          seconds = d mod 86400;
          ss = (seconds mod 60);
          mm = (seconds div 60) mod 60;
          hh = (seconds div 60) div 60;
          s = str_int hh @ '':'' @ pad2 mm @ '':'' @ pad2 ss
      in if days \<noteq> 0
         then str_int days @ '' day'' @ (if \<bar>days\<bar> \<noteq> 1 then ''s'' else []) @ '', '' @ s
         else s)"

text \<open>\<^verbatim>\<open>s.split('.')[0]\<close>: the part of \<open>s\<close> before its first dot.\<close>

definition before_dot :: "string \<Rightarrow> string" where
  "before_dot s = takeWhile (\<lambda>c. c \<noteq> CHR ''.'') s"

text \<open>
  Sizes in MB are floats with two decimals in the program. Here such a value is the whole
  number of its hundredths: \<open>500\<close> stands for \<open>5.0\<close>. \<^verbatim>\<open>round(filesize / (1024 * 1024), 2)\<close>
  divides by a power of two, which is exact on floats for sizes below \<open>2 ^ 53\<close> bytes,
  and \<^verbatim>\<open>round\<close> rounds the exact quotient to the nearest hundredth, a tie going to the even
  one.
\<close>

type_synonym hundredths = int

definition round_mb :: "int \<Rightarrow> hundredths" where
  "round_mb n =
     (let q = (n * 100) div (1024 * 1024);
          r = (n * 100) mod (1024 * 1024)
      in if 2 * r < 1024 * 1024 then q
         else if 2 * r > 1024 * 1024 then q + 1
         else if even q then q else q + 1)"

text \<open>\<^verbatim>\<open>int(x)\<close> for a float \<open>x\<close> given in hundredths: truncation towards zero.\<close>

definition int_of_mb :: "hundredths \<Rightarrow> int" where
  "int_of_mb mb = (if 0 \<le> mb then mb div 100 else - ((- mb) div 100))"

section \<open>The projection to the response\<close>

record raw_info =
  info_title :: "string option"
  info_duration :: "int option"
  info_thumbnail :: "string option"
  info_uploader :: "string option"
  info_channel :: "string option"
  info_view_count :: "int option"
  info_like_count :: "int option"
  info_description :: "string option"
  info_filesize :: "int option"
  info_url :: "string option"
  info_formats :: "raw_format list"

text \<open>An entry of the list that \<^verbatim>\<open>_parse_formats\<close> builds.\<close>

record alt_format =
  alt_format_id :: "string option"
  alt_format_note :: "string option"
  alt_ext :: "string option"
  alt_quality :: "int option"
  alt_filesize :: "int option"
  alt_filesize_mb :: "hundredths option"
  alt_resolution :: string
  alt_fps :: "int option"
  alt_vcodec :: "string option"
  alt_acodec :: "string option"

text \<open>The dictionary that \<^verbatim>\<open>_parse_video_info\<close> returns.\<close>

record video_info =
  out_title :: string
  out_duration :: int
  out_duration_string :: "string option"
  out_thumbnail :: "string option"
  out_direct_url :: "string option"
  out_platform :: string
  out_uploader :: "string option"
  out_view_count :: "int option"
  out_like_count :: "int option"
  out_description :: "string option"
  out_filesize_mb :: "hundredths option"
  out_resolution :: string
  out_ext :: string
  out_formats :: "alt_format list"

text \<open>\<^verbatim>\<open>round(filesize / (1024 * 1024), 2) if filesize else None\<close>.\<close>

definition filesize_mb_of :: "int option \<Rightarrow> hundredths option" where
  "filesize_mb_of size_in_bytes =
     (case size_in_bytes of
        None \<Rightarrow> None
      | Some n \<Rightarrow> if n \<noteq> 0 then Some (round_mb n) else None)"

text \<open>\<^verbatim>\<open>fmt.get('resolution') or f"{fmt.get('height', 'unknown')}p"\<close>.\<close>

definition resolution_label :: "raw_format \<Rightarrow> string" where
  "resolution_label fmt =
     (let height_p = (case height fmt of None \<Rightarrow> ''unknown'' | Some h \<Rightarrow> str_int h) @ ''p''
      in case resolution fmt of
           None \<Rightarrow> height_p
         | Some r \<Rightarrow> if r \<noteq> [] then r else height_p)"

definition format_summary :: "raw_format \<Rightarrow> alt_format" where
  "format_summary fmt =
     \<lparr>alt_format_id = format_id fmt,
      alt_format_note = format_note fmt,
      alt_ext = ext fmt,
      alt_quality = quality fmt,
      alt_filesize = filesize fmt,
      alt_filesize_mb = filesize_mb_of (filesize fmt),
      alt_resolution = resolution_label fmt,
      alt_fps = fps fmt,
      alt_vcodec = vcodec fmt,
      alt_acodec = acodec fmt\<rparr>"

text \<open>The loop of \<^verbatim>\<open>_parse_formats\<close>; \<open>parsed\<close> is the list built so far.\<close>

fun parse_formats_loop :: "raw_format list \<Rightarrow> alt_format list \<Rightarrow> alt_format list" where
  "parse_formats_loop [] parsed = parsed"
| "parse_formats_loop (fmt # rest) parsed =
     (if vcodec fmt = Some ''none'' then parse_formats_loop rest parsed
      else parse_formats_loop rest (parsed @ [format_summary fmt]))"

definition parse_formats :: "raw_format list \<Rightarrow> alt_format list" where
  "parse_formats formats = parse_formats_loop formats []"

definition parse_video_info :: "raw_info \<Rightarrow> string \<Rightarrow> video_info" where
  "parse_video_info info platform =
     (let formats = info_formats info;
          best_format = select_best_format formats platform;
          duration = (case info_duration info of None \<Rightarrow> 0 | Some d \<Rightarrow> d);
          duration_str =
            (if duration \<noteq> 0 then Some (before_dot (timedelta_str duration)) else None);
          size_in_bytes = or_int (filesize best_format) (info_filesize info);
          filesize_mb = filesize_mb_of size_in_bytes;
          direct_url = or_str (url best_format) (info_url info);
          available_formats = (if formats \<noteq> [] then parse_formats formats else [])
      in \<lparr>out_title = (case info_title info of None \<Rightarrow> ''Unknown'' | Some t \<Rightarrow> t),
          out_duration = duration,
          out_duration_string = duration_str,
          out_thumbnail = info_thumbnail info,
          out_direct_url = direct_url,
          out_platform = capitalize platform,
          out_uploader = or_str (info_uploader info) (info_channel info),
          out_view_count = info_view_count info,
          out_like_count = info_like_count info,
          out_description =
            (case info_description info of
               None \<Rightarrow> None
             | Some d \<Rightarrow> if d \<noteq> [] then Some (take 500 d) else None),
          out_filesize_mb = filesize_mb,
          out_resolution = resolution_label best_format,
          out_ext = (case ext best_format of None \<Rightarrow> ''mp4'' | Some e \<Rightarrow> e),
          out_formats = take 5 available_formats\<rparr>)"

section \<open>The request: detection, extraction, projection, size check\<close>

definition MAX_DOWNLOAD_SIZE_MB :: int where
  "MAX_DOWNLOAD_SIZE_MB = 500"

text \<open>
  The size check of \<^verbatim>\<open>get_video_info\<close>:
  \<^verbatim>\<open>if filesize_mb and filesize_mb > max_size: raise FileTooLargeException(int(filesize_mb), max_size)\<close>.
\<close>

definition size_check :: "video_info \<Rightarrow> int \<Rightarrow> error + video_info" where
  "size_check result max_size =
     (case out_filesize_mb result of
        None \<Rightarrow> Inr result
      | Some filesize_mb \<Rightarrow>
          if filesize_mb \<noteq> 0 \<and> filesize_mb > 100 * max_size
          then Inl (FileTooLargeException (int_of_mb filesize_mb) max_size)
          else Inr result)"

text \<open>
  The body of the \<^verbatim>\<open>try\<close> statement of \<^verbatim>\<open>get_video_info\<close>. The call of the extraction
  library is the parameter \<open>extract_info\<close>: from the URL and the platform, whose options it
  is run with, it returns the metadata (\<open>None\<close> for a falsy result) or raises.
\<close>

definition try_block ::
  "(string \<Rightarrow> string \<Rightarrow> raised + raw_info option) \<Rightarrow> int \<Rightarrow> string \<Rightarrow> raised + video_info" where
  "try_block extract_info max_size video_url =
     (case detect_platform video_url of
        Inl e \<Rightarrow> Inl (App e)
      | Inr platform \<Rightarrow>
          (case extract_info video_url platform of
             Inl e \<Rightarrow> Inl e
           | Inr None \<Rightarrow> Inl (App (VideoUnavailableException DefaultMessage))
           | Inr (Some info) \<Rightarrow>
               (case size_check (parse_video_info info platform) max_size of
                  Inl e \<Rightarrow> Inl (App e)
                | Inr result \<Rightarrow> Inr result)))"

text \<open>
  The \<^verbatim>\<open>except\<close> clauses, in their order: \<^verbatim>\<open>yt_dlp.utils.DownloadError\<close>,
  \<^verbatim>\<open>asyncio.TimeoutError\<close>, then \<^verbatim>\<open>Exception\<close>, which every exception class of the
  program inherits from.
\<close>

fun except_clauses :: "raised \<Rightarrow> error" where
  "except_clauses (DownloadError error_msg) =
     (if contains (lower error_msg) ''private'' \<or> contains (lower error_msg) ''not available''
      then VideoUnavailableException PrivateOrRemoved
      else if contains (lower error_msg) ''copyright''
      then VideoUnavailableException CopyrightBlocked
      else DownloadFailedException (DownloadErrorMessage error_msg))"
| "except_clauses AsyncTimeoutError = TimeoutException"
| "except_clauses e = DownloadFailedException (UnexpectedError e)"

definition get_video_info ::
  "(string \<Rightarrow> string \<Rightarrow> raised + raw_info option) \<Rightarrow> int \<Rightarrow> string \<Rightarrow> error + video_info" where
  "get_video_info extract_info max_size video_url =
     (case try_block extract_info max_size video_url of
        Inl e \<Rightarrow> Inl (except_clauses e)
      | Inr result \<Rightarrow> Inr result)"

section \<open>Sample inputs\<close>

definition empty_info :: raw_info where
  "empty_info =
     \<lparr>info_title = None, info_duration = None, info_thumbnail = None, info_uploader = None,
      info_channel = None, info_view_count = None, info_like_count = None,
      info_description = None, info_filesize = None, info_url = None, info_formats = []\<rparr>"



text \<open>A format of the given height, codec and size.\<close>

definition mk_fmt :: "string \<Rightarrow> int \<Rightarrow> string \<Rightarrow> int option \<Rightarrow> raw_format" where
  "mk_fmt fid h codec bytes =
     empty_format\<lparr>format_id := Some fid, height := Some h, vcodec := Some codec,
       filesize := bytes, url := Some (''https://cdn.example/'' @ fid)\<rparr>"

text \<open>An extraction that returns the given metadata for every URL.\<close>

definition returns :: "raw_info \<Rightarrow> string \<Rightarrow> string \<Rightarrow> raised + raw_info option" where
  "returns info video_url platform = Inr (Some info)"


text \<open>Metadata whose only format has the given size in bytes.\<close>

definition sized_info :: "int option \<Rightarrow> raw_info" where
  "sized_info bytes =
     empty_info\<lparr>info_title := Some ''clip'', info_formats := [mk_fmt ''22'' 720 ''avc1'' bytes]\<rparr>"

text \<open>Seven formats, the third of them audio-only.\<close>

definition seven_formats_info :: raw_info where
  "seven_formats_info =
     empty_info\<lparr>info_formats :=
       [mk_fmt ''a'' 144 ''avc1'' None, mk_fmt ''b'' 1080 ''avc1'' None,
        mk_fmt ''c'' 0 ''none'' None, mk_fmt ''d'' 240 ''vp9'' None,
        mk_fmt ''e'' 2160 ''av01'' None, mk_fmt ''f'' 360 ''avc1'' None,
        mk_fmt ''g'' 720 ''avc1'' None]\<rparr>"

section \<open>Properties of the strings\<close>

lemma startswith_iff: "startswith s p \<longleftrightarrow> (\<exists>post. s = p @ post)"
  by (induction s p rule: startswith.induct) auto

lemma contains_iff: "contains s p \<longleftrightarrow> (\<exists>pre post. s = pre @ p @ post)"
proof (induction s)
  case Nil
  show ?case by (cases p) simp_all
next
  case (Cons c cs)
  show ?case
  proof
    assume "contains (c # cs) p"
    then consider "startswith (c # cs) p" | "contains cs p" by auto
    then show "\<exists>pre post. c # cs = pre @ p @ post"
    proof cases
      case 1
      then obtain post where "c # cs = p @ post" by (auto simp: startswith_iff)
      then have "c # cs = [] @ p @ post" by simp
      then show ?thesis by blast
    next
      case 2
      then obtain pre post where "cs = pre @ p @ post" using Cons.IH by blast
      then have "c # cs = (c # pre) @ p @ post" by simp
      then show ?thesis by blast
    qed
  next
    assume "\<exists>pre post. c # cs = pre @ p @ post"
    then obtain pre post where eq: "c # cs = pre @ p @ post" by blast
    show "contains (c # cs) p"
    proof (cases pre)
      case Nil
      with eq have "startswith (c # cs) p" by (auto simp: startswith_iff)
      then show ?thesis by simp
    next
      case (Cons a pre')
      with eq have "cs = pre' @ p @ post" by simp
      then have "contains cs p" using Cons.IH by blast
      then show ?thesis by simp
    qed
  qed
qed

text \<open>
  An occurrence of a lower-case pattern in the lower-cased string is an occurrence in the
  string itself up to the case of the letters.
\<close>

lemma lower_contains_iff:
  "(\<exists>pre post. lower u = pre @ p @ post)
   \<longleftrightarrow> (\<exists>pre mid post. u = pre @ mid @ post \<and> lower mid = p)"
proof
  assume "\<exists>pre post. lower u = pre @ p @ post"
  then obtain pre post where "map lower_char u = pre @ p @ post"
    by (auto simp: lower_def)
  then have "\<exists>us vs. u = us @ vs \<and> pre = map lower_char us \<and> p @ post = map lower_char vs"
    by (simp only: map_eq_append_conv)
  then obtain a vs where u: "u = a @ vs" and r: "map lower_char vs = p @ post"
    by metis
  from r have "\<exists>us ws. vs = us @ ws \<and> p = map lower_char us \<and> post = map lower_char ws"
    by (simp only: map_eq_append_conv)
  then obtain b c where "vs = b @ c" "map lower_char b = p"
    by metis
  with u have "u = a @ b @ c \<and> lower b = p" by (simp add: lower_def)
  then show "\<exists>pre mid post. u = pre @ mid @ post \<and> lower mid = p"
    by blast
next
  assume "\<exists>pre mid post. u = pre @ mid @ post \<and> lower mid = p"
  then obtain a b c where "u = a @ b @ c" "lower b = p" by blast
  then have "lower u = lower a @ p @ lower c" by (simp add: lower_def)
  then show "\<exists>pre post. lower u = pre @ p @ post" by blast
qed

section \<open>The classifier\<close>

text \<open>
  C4. \<^verbatim>\<open>detect_platform\<close> lower-cases the URL and returns \<open>instagram\<close> when the result
  contains \<open>instagram.com\<close> or \<open>instagr.am\<close>; otherwise \<open>tiktok\<close> when it contains
  \<open>tiktok.com\<close> or \<open>vm.tiktok.com\<close>; otherwise \<open>youtube\<close> when it contains
  \<open>youtube.com\<close> or \<open>youtu.be\<close>; and it raises \<^verbatim>\<open>InvalidURLException(url)\<close>, the
  program's unsupported-platform error, when the URL contains none of the six strings.
  The order of the tests is the precedence instagram, tiktok, youtube.
\<close>

theorem detect_platform_first_match:
  "detect_platform u =
     (if (\<exists>pre post. lower u = pre @ ''instagram.com'' @ post)
         \<or> (\<exists>pre post. lower u = pre @ ''instagr.am'' @ post)
      then Inr ''instagram''
      else if (\<exists>pre post. lower u = pre @ ''tiktok.com'' @ post)
         \<or> (\<exists>pre post. lower u = pre @ ''vm.tiktok.com'' @ post)
      then Inr ''tiktok''
      else if (\<exists>pre post. lower u = pre @ ''youtube.com'' @ post)
         \<or> (\<exists>pre post. lower u = pre @ ''youtu.be'' @ post)
      then Inr ''youtube''
      else Inl (InvalidURLException u))"
  unfolding detect_platform_def PLATFORM_PATTERNS_def Let_def
  by (simp only: first_platform.simps re_search.simps contains_iff
        option.case if_distrib [of "case_option _ _"] simp_thms cong: if_cong)


theorem detect_platform_first_match_witness:
  "detect_platform ''HTTPS://VM.TikTok.com/x?ref=youtu.be'' = Inr ''tiktok''
   \<and> detect_platform ''https://instagr.am/p/1?via=tiktok.com'' = Inr ''instagram''
   \<and> detect_platform ''https://vimeo.com/1'' = Inl (InvalidURLException ''https://vimeo.com/1'')"
  using
    detect_platform_first_match [of "''HTTPS://VM.TikTok.com/x?ref=youtu.be''", folded contains_iff]
    detect_platform_first_match [of "''https://instagr.am/p/1?via=tiktok.com''", folded contains_iff]
    detect_platform_first_match [of "''https://vimeo.com/1''", folded contains_iff]
  by (simp add: lower_def lower_char_def)

section \<open>The reverse sort\<close>

lemma set_insert_reverse: "set (insert_reverse k x ys) = insert x (set ys)"
  by (induction ys) auto


lemma mset_insert_reverse: "mset (insert_reverse k x ys) = add_mset x (mset ys)"
  by (induction ys) auto

lemma mset_sort_reverse: "mset (sort_reverse k xs) = mset xs"
  by (induction xs) (auto simp: mset_insert_reverse)

lemma sorted_insert_reverse:
  "sorted_wrt (\<lambda>a b. k b \<le> k a) ys \<Longrightarrow> sorted_wrt (\<lambda>a b. k b \<le> k a) (insert_reverse k x ys)"
  by (induction ys) (auto simp: set_insert_reverse)

lemma sorted_sort_reverse: "sorted_wrt (\<lambda>a b. k b \<le> k a) (sort_reverse k xs)"
  by (induction xs) (auto simp: sorted_insert_reverse)

text \<open>
  An element that is passed over on the way in has a strictly greater key, so the
  elements of one key stay in the order in which they were.
\<close>

lemma filter_insert_reverse:
  "filter (\<lambda>y. k y = c) (insert_reverse k x ys) =
     (if k x = c then x # filter (\<lambda>y. k y = c) ys else filter (\<lambda>y. k y = c) ys)"
  by (induction ys) auto

lemma filter_sort_reverse:
  "filter (\<lambda>y. k y = c) (sort_reverse k xs) = filter (\<lambda>y. k y = c) xs"
  by (induction xs) (auto simp: filter_insert_reverse)


text \<open>
  C5. The list that the default rule sorts holds the formats with video of the input,
  in descending order of the pair (height, file size), a missing value counting as 0; and
  the sort is stable: for every pair \<open>(h, s)\<close>, the formats with this pair stand in the
  sorted list in the order in which they stand in the input.
\<close>

theorem default_sort_stable:
  "sorted_wrt (\<lambda>a b. sort_key b \<le> sort_key a) (sorted_video_formats formats)
   \<and> mset (sorted_video_formats formats) = mset (filter (\<lambda>f. vcodec f \<noteq> Some ''none'') formats)
   \<and> filter (\<lambda>f. sort_key f = (h, s)) (sorted_video_formats formats)
       = filter (\<lambda>f. vcodec f \<noteq> Some ''none''
                   \<and> (or_zero (height f), or_zero (filesize f)) = (h, s)) formats"
proof -
  have "filter (\<lambda>f. sort_key f = (h, s)) (filter has_video formats)
      = filter (\<lambda>f. vcodec f \<noteq> Some ''none''
                  \<and> (or_zero (height f), or_zero (filesize f)) = (h, s)) formats"
    by (simp add: has_video_def sort_key_def conj_commute)
  moreover have "filter has_video formats = filter (\<lambda>f. vcodec f \<noteq> Some ''none'') formats"
    by (rule filter_cong) (simp_all add: has_video_def)
  ultimately show ?thesis
    unfolding sorted_video_formats_def video_formats_def
    by (simp add: sorted_sort_reverse mset_sort_reverse filter_sort_reverse)
qed

text \<open>
  Four formats of height 720: two of 1000 bytes around one of 2000 bytes and one without
  a size. The larger one comes first, the two of equal size keep their order.
\<close>

theorem default_sort_stable_witness:
  "sorted_video_formats
     [mk_fmt ''a'' 720 ''avc1'' (Some 1000), mk_fmt ''b'' 720 ''avc1'' (Some 2000),
      mk_fmt ''c'' 720 ''none'' (Some 1000), mk_fmt ''d'' 720 ''vp9'' (Some 1000),
      mk_fmt ''e'' 720 ''avc1'' None]
   = [mk_fmt ''b'' 720 ''avc1'' (Some 2000), mk_fmt ''a'' 720 ''avc1'' (Some 1000),
      mk_fmt ''d'' 720 ''vp9'' (Some 1000), mk_fmt ''e'' 720 ''avc1'' None]
   \<and> filter (\<lambda>f. sort_key f = (720, 1000))
       (sorted_video_formats
         [mk_fmt ''a'' 720 ''avc1'' (Some 1000), mk_fmt ''b'' 720 ''avc1'' (Some 2000),
          mk_fmt ''c'' 720 ''none'' (Some 1000), mk_fmt ''d'' 720 ''vp9'' (Some 1000),
          mk_fmt ''e'' 720 ''avc1'' None])
     = [mk_fmt ''a'' 720 ''avc1'' (Some 1000), mk_fmt ''d'' 720 ''vp9'' (Some 1000)]"
  using default_sort_stable
    [of "[mk_fmt ''a'' 720 ''avc1'' (Some 1000), mk_fmt ''b'' 720 ''avc1'' (Some 2000),
          mk_fmt ''c'' 720 ''none'' (Some 1000), mk_fmt ''d'' 720 ''vp9'' (Some 1000),
          mk_fmt ''e'' 720 ''avc1'' None]" 720 1000]
  by (simp add: sorted_video_formats_def video_formats_def has_video_def sort_key_def
      or_zero_def mk_fmt_def empty_format_def)

section \<open>The selection of the best format\<close>






lemma select_best_format_scenario:
  "select_best_format
      [mk_fmt ''18'' 480 ''avc1'' (Some 1000000), mk_fmt ''137'' 1080 ''avc1'' (Some 2000000),
       mk_fmt ''140'' 720 ''none'' None] ''youtube''
   = mk_fmt ''137'' 1080 ''avc1'' (Some 2000000)"
  by (simp add: select_best_format_def default_format_def sorted_video_formats_def
      video_formats_def has_video_def sort_key_def or_zero_def mk_fmt_def empty_format_def)




section \<open>The fields of the response\<close>

lemma out_formats_parse_video_info:
  "out_formats (parse_video_info info platform) =
     take 5 (if info_formats info \<noteq> [] then parse_formats (info_formats info) else [])"
  by (simp add: parse_video_info_def Let_def)


lemma out_filesize_mb_parse_video_info:
  "out_filesize_mb (parse_video_info info platform) =
     filesize_mb_of (or_int (filesize (select_best_format (info_formats info) platform))
       (info_filesize info))"
  by (simp add: parse_video_info_def Let_def)


subsection \<open>The list of alternate formats\<close>

lemma parse_formats_loop_eq:
  "parse_formats_loop formats parsed =
     parsed @ map format_summary (filter (\<lambda>f. vcodec f \<noteq> Some ''none'') formats)"
  by (induction formats arbitrary: parsed) auto

lemma parse_formats_eq:
  "parse_formats formats = map format_summary (filter (\<lambda>f. vcodec f \<noteq> Some ''none'') formats)"
  by (simp add: parse_formats_def parse_formats_loop_eq)

text \<open>
  C9. The list of alternate formats of the response is made of the summaries of the
  formats of the input whose video codec is not \<open>none\<close>, in the order of the input, cut
  after the fifth. So it has at most 5 entries, none of them with the codec \<open>none\<close>.
\<close>

theorem out_formats_first_five_videos:
  "out_formats (parse_video_info info platform) =
     take 5 (map format_summary (filter (\<lambda>f. vcodec f \<noteq> Some ''none'') (info_formats info)))
   \<and> length (out_formats (parse_video_info info platform)) \<le> 5
   \<and> (\<forall>a \<in> set (out_formats (parse_video_info info platform)). alt_vcodec a \<noteq> Some ''none'')"
proof -
  have eq: "out_formats (parse_video_info info platform) =
     take 5 (map format_summary (filter (\<lambda>f. vcodec f \<noteq> Some ''none'') (info_formats info)))"
    by (simp add: out_formats_parse_video_info parse_formats_eq)
  have "\<forall>a \<in> set (map format_summary
            (filter (\<lambda>f. vcodec f \<noteq> Some ''none'') (info_formats info))).
          alt_vcodec a \<noteq> Some ''none''"
    by (auto simp: format_summary_def)
  then have "\<forall>a \<in> set (out_formats (parse_video_info info platform)).
      alt_vcodec a \<noteq> Some ''none''"
    unfolding eq by (meson in_set_takeD)
  with eq show ?thesis by simp
qed

text \<open>
  Of seven formats, six with video, the first five with video are kept, in the order
  of the input and not in the order of their heights.
\<close>

theorem out_formats_first_five_videos_witness:
  "map alt_format_id (out_formats (parse_video_info seven_formats_info ''youtube''))
     = [Some ''a'', Some ''b'', Some ''d'', Some ''e'', Some ''f'']
   \<and> map alt_resolution (out_formats (parse_video_info seven_formats_info ''youtube''))
     = [''144p'', ''1080p'', ''240p'', ''2160p'', ''360p'']"
  using out_formats_first_five_videos [of seven_formats_info "''youtube''"]
  by (simp add: seven_formats_info_def empty_info_def mk_fmt_def empty_format_def
      format_summary_def resolution_label_def str_int_def str_nat.simps digit_char_def)

subsection \<open>The direct URL\<close>





subsection \<open>The duration string\<close>










text \<open>From one day on the days come first, as in \<^verbatim>\<open>1 day, 1:01:01\<close>.\<close>

lemma timedelta_str_a_day: "timedelta_str 90061 = ''1 day, 1:01:01''"
  by (simp add: timedelta_str_def pad2_def str_int_def str_nat.simps digit_char_def)




subsection \<open>The size in MB\<close>





text \<open>A tie goes to the even hundredth: 0.125 MB is 0.12, and 0.375 MB is 0.38.\<close>

lemma round_mb_ties: "round_mb 131072 = 12 \<and> round_mb 393216 = 38"
  by (simp add: round_mb_def)


lemma select_best_format_sized_info:
  "select_best_format (info_formats (sized_info bytes)) ''youtube''
     = mk_fmt ''22'' 720 ''avc1'' bytes"
  by (simp add: select_best_format_def default_format_def sorted_video_formats_def
      video_formats_def has_video_def sized_info_def empty_info_def mk_fmt_def
      empty_format_def)

lemma filesize_mk_fmt: "filesize (mk_fmt fid h codec bytes) = bytes"
  by (simp add: mk_fmt_def empty_format_def)

lemma info_filesize_sized_info: "info_filesize (sized_info bytes) = None"
  by (simp add: sized_info_def empty_info_def)

lemma out_filesize_mb_sized_info:
  "out_filesize_mb (parse_video_info ((sized_info bytes)\<lparr>info_filesize := b\<rparr>) ''youtube'')
     = filesize_mb_of (or_int bytes b)"
proof -
  have "info_formats ((sized_info bytes)\<lparr>info_filesize := b\<rparr>) = info_formats (sized_info bytes)"
    by simp
  then show ?thesis
    unfolding out_filesize_mb_parse_video_info
    by (simp only: select_best_format_sized_info filesize_mk_fmt) simp
qed


section \<open>The size check\<close>

lemma size_check_Inl_iff:
  "size_check result max_size = Inl e \<longleftrightarrow>
     (\<exists>mb. out_filesize_mb result = Some mb \<and> 100 * max_size < mb \<and> mb \<noteq> 0
        \<and> e = FileTooLargeException (int_of_mb mb) max_size)"
  by (auto simp: size_check_def split: option.splits)

lemma size_check_Inr_iff:
  "size_check result max_size = Inr r \<longleftrightarrow>
     r = result \<and>
     (case out_filesize_mb result of None \<Rightarrow> True | Some mb \<Rightarrow> mb = 0 \<or> mb \<le> 100 * max_size)"
  by (auto simp: size_check_def split: option.splits)

text \<open>
  C10, as amended. When the chosen format reports the size 0 and the metadata have no
  top-level size, or the top-level size 0, the response has no size in MB, and the size
  check lets the response through whatever the limit is.
\<close>

theorem zero_filesize_is_unknown:
  assumes "filesize (select_best_format (info_formats info) platform) = Some 0"
    and "info_filesize info = None \<or> info_filesize info = Some 0"
  shows "out_filesize_mb (parse_video_info info platform) = None
    \<and> size_check (parse_video_info info platform) max_size
        = Inr (parse_video_info info platform)"
proof -
  from assms have "out_filesize_mb (parse_video_info info platform) = None"
    by (auto simp: out_filesize_mb_parse_video_info or_int_def truthy_int_def
        filesize_mb_of_def)
  then show ?thesis by (simp add: size_check_def)
qed

theorem zero_filesize_is_unknown_witness:
  "filesize (select_best_format (info_formats (sized_info (Some 0))) ''youtube'') = Some 0
   \<and> info_filesize (sized_info (Some 0)) = None
   \<and> out_filesize_mb (parse_video_info (sized_info (Some 0)) ''youtube'') = None
   \<and> size_check (parse_video_info (sized_info (Some 0)) ''youtube'') 0
       = Inr (parse_video_info (sized_info (Some 0)) ''youtube'')"
proof -
  have a: "filesize (select_best_format (info_formats (sized_info (Some 0))) ''youtube'') = Some 0"
    by (simp only: select_best_format_sized_info filesize_mk_fmt)
  have b: "info_filesize (sized_info (Some 0)) = None"
    by (rule info_filesize_sized_info)
  from b have b': "info_filesize (sized_info (Some 0)) = None
      \<or> info_filesize (sized_info (Some 0)) = Some 0"
    by simp
  from a b zero_filesize_is_unknown [OF a b', of 0] show ?thesis by simp
qed

text \<open>
  The chosen format reports the size 0, but the metadata have a top-level size: one of
  5 MB appears in the response as 5.0, and one of 600 MB is rejected at the limit of
  500 MB.
\<close>

theorem zero_filesize_counterexample:
  "filesize (select_best_format
       (info_formats ((sized_info (Some 0))\<lparr>info_filesize := Some 5242880\<rparr>)) ''youtube'')
     = Some 0
   \<and> out_filesize_mb
       (parse_video_info ((sized_info (Some 0))\<lparr>info_filesize := Some 5242880\<rparr>) ''youtube'')
     = Some 500
   \<and> filesize (select_best_format
       (info_formats ((sized_info (Some 0))\<lparr>info_filesize := Some 629145600\<rparr>)) ''youtube'')
     = Some 0
   \<and> size_check
       (parse_video_info ((sized_info (Some 0))\<lparr>info_filesize := Some 629145600\<rparr>) ''youtube'')
       MAX_DOWNLOAD_SIZE_MB
     = Inl (FileTooLargeException 600 500)"
proof -
  have fmts: "info_formats ((sized_info (Some 0))\<lparr>info_filesize := b\<rparr>)
      = info_formats (sized_info (Some 0))" for b
    by simp
  have a: "filesize (select_best_format
       (info_formats ((sized_info (Some 0))\<lparr>info_filesize := b\<rparr>)) ''youtube'') = Some 0" for b
    by (simp only: fmts select_best_format_sized_info filesize_mk_fmt)
  have c: "out_filesize_mb
       (parse_video_info ((sized_info (Some 0))\<lparr>info_filesize := Some 5242880\<rparr>) ''youtube'')
     = Some 500"
    by (simp add: out_filesize_mb_sized_info or_int_def truthy_int_def filesize_mb_of_def
        round_mb_def)
  have d: "out_filesize_mb
       (parse_video_info ((sized_info (Some 0))\<lparr>info_filesize := Some 629145600\<rparr>) ''youtube'')
     = Some 60000"
    by (simp add: out_filesize_mb_sized_info or_int_def truthy_int_def filesize_mb_of_def
        round_mb_def)
  have "size_check
       (parse_video_info ((sized_info (Some 0))\<lparr>info_filesize := Some 629145600\<rparr>) ''youtube'')
       MAX_DOWNLOAD_SIZE_MB
     = Inl (FileTooLargeException 600 500)"
    by (simp add: size_check_def d MAX_DOWNLOAD_SIZE_MB_def int_of_mb_def)
  with a c show ?thesis by simp
qed

section \<open>What the caller of the downloader sees\<close>

text \<open>
  Every exception raised inside the \<^verbatim>\<open>try\<close> statement that is not the extractor's
  \<^verbatim>\<open>DownloadError\<close> or a timeout is caught by \<^verbatim>\<open>except Exception\<close>, the exceptions of
  the program itself included, and leaves \<^verbatim>\<open>get_video_info\<close> as a
  \<^verbatim>\<open>DownloadFailedException\<close>.
\<close>

lemma except_clauses_App: "except_clauses (App e) = DownloadFailedException (UnexpectedError (App e))"
  by simp

lemma except_clauses_not_FileTooLarge: "except_clauses r \<noteq> FileTooLargeException a b"
  by (cases r) auto

lemma get_video_info_not_FileTooLarge:
  "get_video_info extract_info max_size video_url \<noteq> Inl (FileTooLargeException a b)"
  by (auto simp: get_video_info_def except_clauses_not_FileTooLarge split: sum.splits)

lemma get_video_info_too_large:
  assumes "detect_platform video_url = Inr platform"
    and "extract_info video_url platform = Inr (Some info)"
    and "size_check (parse_video_info info platform) max_size = Inl e"
  shows "get_video_info extract_info max_size video_url
     = Inl (DownloadFailedException (UnexpectedError (App e)))"
  using assms by (simp add: get_video_info_def try_block_def)

lemma get_video_info_accepted:
  assumes "detect_platform video_url = Inr platform"
    and "extract_info video_url platform = Inr (Some info)"
    and "size_check (parse_video_info info platform) max_size = Inr r"
  shows "get_video_info extract_info max_size video_url = Inr (parse_video_info info platform)"
proof -
  from assms(3) have "size_check (parse_video_info info platform) max_size
      = Inr (parse_video_info info platform)"
    by (simp add: size_check_Inr_iff)
  with assms(1,2) show ?thesis by (simp add: get_video_info_def try_block_def)
qed

text \<open>
  C6. A video whose only format has 501 MB (525,336,576 bytes), at the limit of 500 MB.
  The size check raises \<^verbatim>\<open>FileTooLargeException(501, 500)\<close>, as the specification says, but the
  caller of \<^verbatim>\<open>get_video_info\<close> gets a \<^verbatim>\<open>DownloadFailedException\<close> that wraps it. A video
  of exactly 500 MB and one of unknown size are let through.
\<close>

theorem too_large_surfaces_as_download_failed:
  "out_filesize_mb (parse_video_info (sized_info (Some 525336576)) ''youtube'') = Some 50100
   \<and> size_check (parse_video_info (sized_info (Some 525336576)) ''youtube'') MAX_DOWNLOAD_SIZE_MB
       = Inl (FileTooLargeException 501 500)
   \<and> get_video_info (returns (sized_info (Some 525336576))) MAX_DOWNLOAD_SIZE_MB
        ''https://youtu.be/x''
       = Inl (DownloadFailedException (UnexpectedError (App (FileTooLargeException 501 500))))
   \<and> get_video_info (returns (sized_info (Some 524288000))) MAX_DOWNLOAD_SIZE_MB
        ''https://youtu.be/x''
       = Inr (parse_video_info (sized_info (Some 524288000)) ''youtube'')
   \<and> get_video_info (returns (sized_info None)) MAX_DOWNLOAD_SIZE_MB ''https://youtu.be/x''
       = Inr (parse_video_info (sized_info None) ''youtube'')"
proof -
  have mb: "out_filesize_mb (parse_video_info (sized_info bytes) ''youtube'')
      = filesize_mb_of bytes" for bytes
    unfolding out_filesize_mb_parse_video_info
    by (simp only: select_best_format_sized_info filesize_mk_fmt info_filesize_sized_info)
      (simp add: or_int_def truthy_int_def filesize_mb_of_def split: option.splits)
  have a: "out_filesize_mb (parse_video_info (sized_info (Some 525336576)) ''youtube'')
      = Some 50100"
    by (simp add: mb filesize_mb_of_def round_mb_def)
  have b: "size_check (parse_video_info (sized_info (Some 525336576)) ''youtube'')
      MAX_DOWNLOAD_SIZE_MB = Inl (FileTooLargeException 501 500)"
    by (simp add: size_check_def a MAX_DOWNLOAD_SIZE_MB_def int_of_mb_def)
  have p: "detect_platform ''https://youtu.be/x'' = Inr ''youtube''"
    by (simp add: detect_platform_def PLATFORM_PATTERNS_def lower_def lower_char_def)
  have r: "returns i ''https://youtu.be/x'' ''youtube'' = Inr (Some i)" for i
    by (simp add: returns_def)
  have c: "get_video_info (returns (sized_info (Some 525336576))) MAX_DOWNLOAD_SIZE_MB
        ''https://youtu.be/x''
       = Inl (DownloadFailedException (UnexpectedError (App (FileTooLargeException 501 500))))"
    using p r b by (rule get_video_info_too_large)
  have "out_filesize_mb (parse_video_info (sized_info (Some 524288000)) ''youtube'')
      = Some 50000"
    by (simp add: mb filesize_mb_of_def round_mb_def)
  then have "size_check (parse_video_info (sized_info (Some 524288000)) ''youtube'')
      MAX_DOWNLOAD_SIZE_MB = Inr (parse_video_info (sized_info (Some 524288000)) ''youtube'')"
    by (simp add: size_check_def MAX_DOWNLOAD_SIZE_MB_def)
  with p r have d: "get_video_info (returns (sized_info (Some 524288000))) MAX_DOWNLOAD_SIZE_MB
        ''https://youtu.be/x''
       = Inr (parse_video_info (sized_info (Some 524288000)) ''youtube'')"
    by (rule get_video_info_accepted)
  have "out_filesize_mb (parse_video_info (sized_info None) ''youtube'') = None"
    by (simp add: mb filesize_mb_of_def)
  then have "size_check (parse_video_info (sized_info None) ''youtube'')
      MAX_DOWNLOAD_SIZE_MB = Inr (parse_video_info (sized_info None) ''youtube'')"
    by (simp add: size_check_def)
  with p r have e: "get_video_info (returns (sized_info None)) MAX_DOWNLOAD_SIZE_MB
        ''https://youtu.be/x''
       = Inr (parse_video_info (sized_info None) ''youtube'')"
    by (rule get_video_info_accepted)
  from a b c d e show ?thesis by simp
qed

end
